theory Spec2Isabelle
  imports Main "HOL-Library.Word" "HOL-Library.Monad_Syntax"
begin

section \<open>Data model of the adaptive radix tree\<close>

text \<open>
  The Go sources are embedded as executable HOL functions. A Go panic (index out of
  range, nil dereference) is the value \<open>None\<close> of an option result; every other
  outcome is \<open>Some\<close>. Go's \<open>int\<close> is \<open>int\<close>, \<open>uint8\<close> and \<open>byte\<close> are
  \<open>8 word\<close>. A nil slice is the empty list, a nil pointer is \<open>None\<close> and the nil
  interface value is \<open>Nil\<close>. The field \<open>keySize\<close> of the Go struct is never read or
  written and is left out; the fields \<open>size\<close> and \<open>value\<close> are called \<open>size_n\<close>
  and \<open>value_n\<close>. Nodes are owned by exactly one slot, so a node is a value and an
  in-place update of a node returns the updated node.
\<close>

type_synonym byte = "8 word"

datatype nodeType = NODE4 | NODE16 | NODE48 | NODE256 | LEAF

datatype 'v iface = Nil | Iface 'v

datatype 'v ArtNode = ArtNode
  (keys: "byte list")
  (children: "'v ArtNode option list")
  (prefix: "byte list")
  (prefixLen: int)
  (size_n: byte)
  (key: "byte list")
  (value_n: "'v iface")
  (nodeType: nodeType)

definition NODE4MIN :: int where "NODE4MIN = 2"
definition NODE4MAX :: int where "NODE4MAX = 4"
definition NODE16MIN :: int where "NODE16MIN = 5"
definition NODE16MAX :: int where "NODE16MAX = 16"
definition NODE48MIN :: int where "NODE48MIN = 17"
definition NODE48MAX :: int where "NODE48MAX = 48"
definition NODE256MIN :: int where "NODE256MIN = 49"
definition NODE256MAX :: int where "NODE256MAX = 256"
definition MAX_PREFIX_LEN :: int where "MAX_PREFIX_LEN = 10"

subsection \<open>Slices\<close>

text \<open>\<open>xs[i]\<close> as a read: a panic outside \<open>0 \<le> i < len(xs)\<close>.\<close>

definition at :: "'a list \<Rightarrow> int \<Rightarrow> 'a option" where
  "at xs i = (if 0 \<le> i \<and> i < int (length xs) then Some (xs ! nat i) else None)"

text \<open>\<open>xs[i] = v\<close> as a write.\<close>

definition set_at :: "'a list \<Rightarrow> int \<Rightarrow> 'a \<Rightarrow> 'a list option" where
  "set_at xs i v = (if 0 \<le> i \<and> i < int (length xs) then Some (xs[nat i := v]) else None)"

text \<open>\<open>xs[i:]\<close>: a panic outside \<open>0 \<le> i \<le> len(xs)\<close>.\<close>

definition slice_from :: "'a list \<Rightarrow> int \<Rightarrow> 'a list option" where
  "slice_from xs i = (if 0 \<le> i \<and> i \<le> int (length xs) then Some (drop (nat i) xs) else None)"

definition min_int :: "int \<Rightarrow> int \<Rightarrow> int" where
  "min_int a b = (if a < b then a else b)"

text \<open>\<open>memcpy\<close> stops at the end of either slice; \<open>memmove\<close> does not and may panic.\<close>

function memcpy_loop :: "byte list \<Rightarrow> byte list \<Rightarrow> int \<Rightarrow> int \<Rightarrow> byte list" where
  "memcpy_loop dest src numBytes i =
     (if 0 \<le> i \<and> i < numBytes \<and> i < int (length src) \<and> i < int (length dest)
      then memcpy_loop (dest[nat i := src ! nat i]) src numBytes (i + 1)
      else dest)"
  by pat_completeness auto
termination
  by (relation "measure (\<lambda>(dest, src, numBytes, i). nat (numBytes - i))") auto

declare memcpy_loop.simps [simp del]

definition memcpy :: "byte list \<Rightarrow> byte list \<Rightarrow> int \<Rightarrow> byte list" where
  "memcpy dest src numBytes = memcpy_loop dest src numBytes 0"

function memmove_loop :: "byte list \<Rightarrow> byte list \<Rightarrow> int \<Rightarrow> int \<Rightarrow> byte list option" where
  "memmove_loop dest src numBytes i =
     (if 0 \<le> i \<and> i < numBytes
      then do { b \<leftarrow> at src i; dest' \<leftarrow> set_at dest i b; memmove_loop dest' src numBytes (i + 1) }
      else Some dest)"
  by pat_completeness auto
termination
  by (relation "measure (\<lambda>(dest, src, numBytes, i). nat (numBytes - i))") auto

declare memmove_loop.simps [simp del]

definition memmove :: "byte list \<Rightarrow> byte list \<Rightarrow> int \<Rightarrow> byte list option" where
  "memmove dest src numBytes = memmove_loop dest src numBytes 0"

subsection \<open>Node constructors and predicates\<close>

definition NewLeafNode :: "byte list \<Rightarrow> 'v iface \<Rightarrow> 'v ArtNode" where
  "NewLeafNode k v = ArtNode [] [] [] 0 0 k v LEAF"

definition NewNode4 :: "'v ArtNode" where
  "NewNode4 = ArtNode (replicate 4 0) (replicate 4 None) (replicate 10 0) 0 0 [] Nil NODE4"

definition NewNode16 :: "'v ArtNode" where
  "NewNode16 = ArtNode (replicate 16 0) (replicate 16 None) (replicate 10 0) 0 0 [] Nil NODE16"

definition NewNode48 :: "'v ArtNode" where
  "NewNode48 = ArtNode (replicate 256 0) (replicate 48 None) (replicate 10 0) 0 0 [] Nil NODE48"

definition NewNode256 :: "'v ArtNode" where
  "NewNode256 = ArtNode [] (replicate 256 None) (replicate 10 0) 0 0 [] Nil NODE256"

text \<open>Field assignments \<open>n.f = x\<close>.\<close>

definition set_keys :: "'v ArtNode \<Rightarrow> byte list \<Rightarrow> 'v ArtNode" where
  "set_keys n ks = ArtNode ks (children n) (prefix n) (prefixLen n) (size_n n) (key n) (value_n n) (nodeType n)"

definition set_children :: "'v ArtNode \<Rightarrow> 'v ArtNode option list \<Rightarrow> 'v ArtNode" where
  "set_children n cs = ArtNode (keys n) cs (prefix n) (prefixLen n) (size_n n) (key n) (value_n n) (nodeType n)"

definition set_prefix :: "'v ArtNode \<Rightarrow> byte list \<Rightarrow> 'v ArtNode" where
  "set_prefix n p = ArtNode (keys n) (children n) p (prefixLen n) (size_n n) (key n) (value_n n) (nodeType n)"

definition set_prefixLen :: "'v ArtNode \<Rightarrow> int \<Rightarrow> 'v ArtNode" where
  "set_prefixLen n l = ArtNode (keys n) (children n) (prefix n) l (size_n n) (key n) (value_n n) (nodeType n)"

definition set_size :: "'v ArtNode \<Rightarrow> byte \<Rightarrow> 'v ArtNode" where
  "set_size n s = ArtNode (keys n) (children n) (prefix n) (prefixLen n) s (key n) (value_n n) (nodeType n)"

definition MinSize :: "'v ArtNode \<Rightarrow> int" where
  "MinSize n = (case nodeType n of NODE4 \<Rightarrow> NODE4MIN | NODE16 \<Rightarrow> NODE16MIN
                | NODE48 \<Rightarrow> NODE48MIN | NODE256 \<Rightarrow> NODE256MIN | LEAF \<Rightarrow> 0)"

definition MaxSize :: "'v ArtNode \<Rightarrow> int" where
  "MaxSize n = (case nodeType n of NODE4 \<Rightarrow> NODE4MAX | NODE16 \<Rightarrow> NODE16MAX
                | NODE48 \<Rightarrow> NODE48MAX | NODE256 \<Rightarrow> NODE256MAX | LEAF \<Rightarrow> 0)"

text \<open>\<open>uint16(n.size) == uint16(n.MaxSize())\<close>\<close>

definition IsFull :: "'v ArtNode \<Rightarrow> bool" where
  "IsFull n = ((ucast (size_n n) :: 16 word) = word_of_int (MaxSize n))"

definition IsLeaf :: "'v ArtNode \<Rightarrow> bool" where
  "IsLeaf n = (nodeType n = LEAF)"

definition IsMatch :: "'v ArtNode \<Rightarrow> byte list \<Rightarrow> bool" where
  "IsMatch n k = (if nodeType n \<noteq> LEAF then False else key n = k)"

text \<open>\<open>copyMeta\<close>: the receiver takes size, prefix and prefixLen of the other node.\<close>

definition copyMeta :: "'v ArtNode \<Rightarrow> 'v ArtNode \<Rightarrow> 'v ArtNode" where
  "copyMeta n other =
     ArtNode (keys n) (children n) (prefix other) (prefixLen other) (size_n other)
       (key n) (value_n n) (nodeType n)"

subsection \<open>Minimum and maximum leaf of a subtree\<close>

lemma size_child:
  "at (children n) i = Some (Some c) \<Longrightarrow> size c < size n"
proof -
  assume a: "at (children n) i = Some (Some c)"
  then have "0 \<le> i \<and> i < int (length (children n)) \<and> children n ! nat i = Some c"
    by (auto simp: at_def split: if_splits)
  then have "Some c \<in> set (children n)"
    by (metis nth_mem nat_less_iff)
  then have "size_option size (Some c) \<le> size_list (size_option size) (children n)"
    by (rule size_list_estimation') simp
  then show ?thesis
    by (cases n) simp
qed

function min48_loop :: "byte list \<Rightarrow> int \<Rightarrow> int option" where
  "min48_loop ks i = do { kb \<leftarrow> at ks i; if kb = 0 then min48_loop ks (i + 1) else Some i }"
  by pat_completeness auto
termination
  by (relation "measure (\<lambda>(ks, i). nat (int (length ks) - i))") (auto simp: at_def split: if_splits)

declare min48_loop.simps [simp del]

function min256_loop :: "'a option list \<Rightarrow> int \<Rightarrow> int option" where
  "min256_loop cs i = do { c \<leftarrow> at cs i; if c = None then min256_loop cs (i + 1) else Some i }"
  by pat_completeness auto
termination
  by (relation "measure (\<lambda>(cs, i). nat (int (length cs) - i))") (auto simp: at_def split: if_splits)

declare min256_loop.simps [simp del]

function Minimum :: "'v ArtNode option \<Rightarrow> 'v ArtNode option option" where
  "Minimum None = Some None"
| "Minimum (Some n) =
     (case nodeType n of
        LEAF \<Rightarrow> Some (Some n)
      | NODE4 \<Rightarrow> do { c \<leftarrow> at (children n) 0; Minimum c }
      | NODE16 \<Rightarrow> do { c \<leftarrow> at (children n) 0; Minimum c }
      | NODE48 \<Rightarrow> do {
          i \<leftarrow> min48_loop (keys n) 0;
          kb \<leftarrow> at (keys n) i;
          child \<leftarrow> at (children n) (uint (kb - 1));
          Minimum child }
      | NODE256 \<Rightarrow> do {
          i \<leftarrow> min256_loop (children n) 0;
          c \<leftarrow> at (children n) i;
          Minimum c })"
  by pat_completeness auto
termination
  by (relation "measure (\<lambda>x. case x of None \<Rightarrow> 0 | Some n \<Rightarrow> Suc (size n))")
     (auto split: option.splits dest: size_child)

function max48_loop :: "byte list \<Rightarrow> int \<Rightarrow> int option" where
  "max48_loop ks i = do { kb \<leftarrow> at ks i; if kb = 0 then max48_loop ks (i - 1) else Some i }"
  by pat_completeness auto
termination
  by (relation "measure (\<lambda>(ks, i). nat (i + 1))") (auto simp: at_def split: if_splits)

declare max48_loop.simps [simp del]

text \<open>\<open>for i > 0 && n.children[byte(i)] == nil { i-- }\<close>\<close>

function max256_loop :: "'a option list \<Rightarrow> int \<Rightarrow> int option" where
  "max256_loop cs i =
     (if i > 0 then do {
        c \<leftarrow> at cs (uint (word_of_int i :: byte));
        if c = None then max256_loop cs (i - 1) else Some i }
      else Some i)"
  by pat_completeness auto
termination
  by (relation "measure (\<lambda>(cs, i). nat i)") auto

declare max256_loop.simps [simp del]

function Maximum :: "'v ArtNode option \<Rightarrow> 'v ArtNode option option" where
  "Maximum None = Some None"
| "Maximum (Some n) =
     (case nodeType n of
        LEAF \<Rightarrow> Some (Some n)
      | NODE4 \<Rightarrow> do { c \<leftarrow> at (children n) (uint (size_n n - 1)); Maximum c }
      | NODE16 \<Rightarrow> do { c \<leftarrow> at (children n) (uint (size_n n - 1)); Maximum c }
      | NODE48 \<Rightarrow> do {
          i \<leftarrow> max48_loop (keys n) (int (length (keys n)) - 1);
          kb \<leftarrow> at (keys n) i;
          child \<leftarrow> at (children n) (uint (kb - 1));
          Maximum child }
      | NODE256 \<Rightarrow> do {
          i \<leftarrow> max256_loop (children n) (int (length (children n)) - 1);
          c \<leftarrow> at (children n) i;
          Maximum c })"
  by pat_completeness auto
termination
  by (relation "measure (\<lambda>x. case x of None \<Rightarrow> 0 | Some n \<Rightarrow> Suc (size n))")
     (auto split: option.splits dest: size_child)

subsection \<open>Prefix comparison\<close>

text \<open>
  The loop of \<open>PrefixMismatch\<close>. The local \<open>prefix\<close> starts as the stored prefix and is
  replaced by \<open>n.Minimum().key[depth:]\<close> in the iteration with \<open>index = MAX_PREFIX_LEN - 1\<close>.
\<close>

function PrefixMismatch_loop ::
  "'v ArtNode \<Rightarrow> byte list \<Rightarrow> int \<Rightarrow> byte list \<Rightarrow> int \<Rightarrow> int option" where
  "PrefixMismatch_loop n k depth pfx index =
     (if index < prefixLen n \<and> depth + index < int (length k) then do {
        kb \<leftarrow> at k (depth + index);
        pb \<leftarrow> at pfx index;
        if kb = pb then do {
          pfx' \<leftarrow> (if index = MAX_PREFIX_LEN - 1 then do {
                      m \<leftarrow> Minimum (Some n);
                      case m of None \<Rightarrow> None | Some leaf \<Rightarrow> slice_from (key leaf) depth }
                    else Some pfx);
          PrefixMismatch_loop n k depth pfx' (index + 1) }
        else Some index }
      else Some index)"
  by pat_completeness auto
termination
  by (relation "measure (\<lambda>(n, k, depth, pfx, index). nat (prefixLen n - index))") auto

declare PrefixMismatch_loop.simps [simp del]

definition PrefixMismatch :: "'v ArtNode \<Rightarrow> byte list \<Rightarrow> int \<Rightarrow> int option" where
  "PrefixMismatch n k depth = PrefixMismatch_loop n k depth (prefix n) 0"

function LongestCommonPrefix_loop :: "byte list \<Rightarrow> byte list \<Rightarrow> int \<Rightarrow> int \<Rightarrow> int \<Rightarrow> int option" where
  "LongestCommonPrefix_loop a b depth limit i =
     (if i < limit then do {
        x \<leftarrow> at a (depth + i);
        y \<leftarrow> at b (depth + i);
        if x \<noteq> y then Some i else LongestCommonPrefix_loop a b depth limit (i + 1) }
      else Some i)"
  by pat_completeness auto
termination
  by (relation "measure (\<lambda>(a, b, depth, limit, i). nat (limit - i))") auto

declare LongestCommonPrefix_loop.simps [simp del]

definition LongestCommonPrefix :: "'v ArtNode \<Rightarrow> 'v ArtNode \<Rightarrow> int \<Rightarrow> int option" where
  "LongestCommonPrefix n other depth =
     LongestCommonPrefix_loop (key n) (key other) depth
       (min_int (int (length (key n))) (int (length (key other))) - depth) 0"

subsection \<open>Child lookup\<close>

text \<open>\<open>sort.Search\<close> of the Go standard library: binary search for the least index in
  \<open>[0, n)\<close> at which \<open>f\<close> holds.\<close>

function sort_Search_loop :: "(int \<Rightarrow> bool option) \<Rightarrow> int \<Rightarrow> int \<Rightarrow> int option" where
  "sort_Search_loop f i j =
     (if 0 \<le> i \<and> i < j then do {
        b \<leftarrow> f ((i + j) div 2);
        if \<not> b then sort_Search_loop f ((i + j) div 2 + 1) j
        else sort_Search_loop f i ((i + j) div 2) }
      else Some i)"
  by pat_completeness auto
termination
  by (relation "measure (\<lambda>(f, i, j). nat (j - i))") auto

declare sort_Search_loop.simps [simp del]

definition sort_Search :: "int \<Rightarrow> (int \<Rightarrow> bool option) \<Rightarrow> int option" where
  "sort_Search n f = sort_Search_loop f 0 n"

lemma unat_byte_lt: "unat (s::byte) < 256"
  using unsigned_less [of s, where ?'a = nat] by simp

lemma unat_byte_inc: "(i::byte) < s \<Longrightarrow> unat (i + 1) = unat i + 1"
proof -
  assume "i < s"
  then have "unat i < unat s" by (simp add: word_less_nat_alt)
  moreover have "unat s < 256" by (rule unat_byte_lt)
  ultimately have "unat i + unat (1::byte) < 2 ^ LENGTH(8)" by simp
  then show ?thesis by (simp add: unat_add_lem [THEN iffD1])
qed

function Index4_loop :: "'v ArtNode \<Rightarrow> byte \<Rightarrow> byte \<Rightarrow> int option" where
  "Index4_loop n k i =
     (if i < size_n n then do {
        kb \<leftarrow> at (keys n) (uint i);
        if kb = k then Some (uint i) else Index4_loop n k (i + 1) }
      else Some (- 1))"
  by pat_completeness auto
termination
  by (relation "measure (\<lambda>(n, k, i). unat (size_n n) - unat i)")
     (auto simp: unat_byte_inc word_less_nat_alt)

declare Index4_loop.simps [simp del]

definition Index :: "'v ArtNode \<Rightarrow> byte \<Rightarrow> int option" where
  "Index n k =
     (case nodeType n of
        NODE4 \<Rightarrow> Index4_loop n k 0
      | NODE16 \<Rightarrow> do {
          index \<leftarrow> sort_Search (uint (size_n n))
                     (\<lambda>i. do { kb \<leftarrow> at (keys n) (uint (word_of_int i :: byte)); Some (kb \<ge> k) });
          if index < int (length (keys n)) then do {
            kb \<leftarrow> at (keys n) index;
            if kb = k then Some index else Some (- 1) }
          else Some (- 1) }
      | NODE48 \<Rightarrow> do {
          kb \<leftarrow> at (keys n) (uint k);
          if uint kb > 0 then Some (uint kb - 1) else Some (- 1) }
      | NODE256 \<Rightarrow> Some (uint k)
      | LEAF \<Rightarrow> Some (- 1))"

text \<open>
  \<open>FindChild\<close> returns a pointer to a child slot: \<open>ChildRef i\<close> is \<open>&n.children[i]\<close>,
  \<open>NullNode\<close> is the address of the local nil pointer.
\<close>

datatype ref = NullNode | ChildRef int

definition FindChild :: "'v ArtNode \<Rightarrow> byte \<Rightarrow> ref option" where
  "FindChild n k =
     (case nodeType n of
        NODE256 \<Rightarrow> do {
          child \<leftarrow> at (children n) (uint k);
          if child \<noteq> None then Some (ChildRef (uint k)) else Some NullNode }
      | LEAF \<Rightarrow> Some NullNode
      | _ \<Rightarrow> do {
          index \<leftarrow> Index n k;
          if index \<ge> 0 then do { c \<leftarrow> at (children n) index; Some (ChildRef index) }
          else Some NullNode })"

text \<open>\<open>*next\<close> for a slot returned by \<open>FindChild\<close>.\<close>

definition deref :: "'v ArtNode \<Rightarrow> ref \<Rightarrow> 'v ArtNode option option" where
  "deref n r = (case r of NullNode \<Rightarrow> Some None | ChildRef i \<Rightarrow> at (children n) i)"

subsection \<open>Growing a node\<close>

lemma nodeType_set [simp]:
  "nodeType (set_keys n ks) = nodeType n"
  "nodeType (set_children n cs) = nodeType n"
  "nodeType (set_prefix n p) = nodeType n"
  "nodeType (set_prefixLen n l) = nodeType n"
  "nodeType (set_size n s) = nodeType n"
  "nodeType (copyMeta n other) = nodeType n"
  by (simp_all add: set_keys_def set_children_def set_prefix_def set_prefixLen_def
      set_size_def copyMeta_def)

text \<open>The scan for a free slot of a \<open>NODE48\<close>, as \<open>AddChild\<close> and \<open>grow\<close> write it:
  \<open>index := 0; for i := 0; i < len(children); i++ { if children[index] != nil { index++ } }\<close>\<close>

function first_free :: "'a option list \<Rightarrow> int \<Rightarrow> int \<Rightarrow> int option" where
  "first_free cs index i =
     (if 0 \<le> i \<and> i < int (length cs) then do {
        c \<leftarrow> at cs index;
        first_free cs (if c \<noteq> None then index + 1 else index) (i + 1) }
      else Some index)"
  by pat_completeness auto
termination
  by (relation "measure (\<lambda>(cs, index, i). nat (int (length cs) - i))") auto

declare first_free.simps [simp del]

function grow4_loop :: "'v ArtNode \<Rightarrow> 'v ArtNode \<Rightarrow> int \<Rightarrow> 'v ArtNode option" where
  "grow4_loop n other i =
     (if 0 \<le> i \<and> i < uint (size_n n) then do {
        kb \<leftarrow> at (keys n) i;
        ks' \<leftarrow> set_at (keys other) i kb;
        c \<leftarrow> at (children n) i;
        cs' \<leftarrow> set_at (children other) i c;
        grow4_loop n (set_children (set_keys other ks') cs') (i + 1) }
      else Some other)"
  by pat_completeness auto
termination
  by (relation "measure (\<lambda>(n, other, i). nat (uint (size_n n) - i))") auto

declare grow4_loop.simps [simp del]

function grow16_loop :: "'v ArtNode \<Rightarrow> 'v ArtNode \<Rightarrow> int \<Rightarrow> 'v ArtNode option" where
  "grow16_loop n other i =
     (if 0 \<le> i \<and> i < uint (size_n n) then do {
        child \<leftarrow> at (children n) i;
        if child \<noteq> None then do {
          index \<leftarrow> first_free (children other) 0 0;
          cs' \<leftarrow> set_at (children other) index child;
          kb \<leftarrow> at (keys n) i;
          ks' \<leftarrow> set_at (keys other) (uint kb) (word_of_int (index + 1));
          grow16_loop n (set_keys (set_children other cs') ks') (i + 1) }
        else grow16_loop n other (i + 1) }
      else Some other)"
  by pat_completeness auto
termination
  by (relation "measure (\<lambda>(n, other, i). nat (uint (size_n n) - i))") auto

declare grow16_loop.simps [simp del]

function grow48_loop :: "'v ArtNode \<Rightarrow> 'v ArtNode \<Rightarrow> int \<Rightarrow> 'v ArtNode option" where
  "grow48_loop n other i =
     (if 0 \<le> i \<and> i < int (length (keys n)) then do {
        r \<leftarrow> FindChild n (word_of_int i);
        child \<leftarrow> deref n r;
        if child \<noteq> None then do {
          cs' \<leftarrow> set_at (children other) (uint (word_of_int i :: byte)) child;
          grow48_loop n (set_children other cs') (i + 1) }
        else grow48_loop n other (i + 1) }
      else Some other)"
  by pat_completeness auto
termination
  by (relation "measure (\<lambda>(n, other, i). nat (int (length (keys n)) - i))") auto

declare grow48_loop.simps [simp del]

text \<open>\<open>grow\<close> ends with \<open>n.replaceWith(other)\<close>, that is \<open>*n = *other\<close>: the result is the
  new content of the node.\<close>

definition grow :: "'v ArtNode \<Rightarrow> 'v ArtNode option" where
  "grow n =
     (case nodeType n of
        NODE4 \<Rightarrow> grow4_loop n (copyMeta NewNode16 n) 0
      | NODE16 \<Rightarrow> grow16_loop n (copyMeta NewNode48 n) 0
      | NODE48 \<Rightarrow> grow48_loop n (copyMeta NewNode256 n) 0
      | NODE256 \<Rightarrow> Some n
      | LEAF \<Rightarrow> Some n)"

lemma grow4_loop_nodeType: "grow4_loop n other i = Some r \<Longrightarrow> nodeType r = nodeType other"
proof (induction n other i rule: grow4_loop.induct)
  case (1 n other i)
  show ?case
  proof (cases "0 \<le> i \<and> i < uint (size_n n)")
    case True
    with "1.prems" obtain ks' cs' where
      s: "set_at (keys other) i (the (at (keys n) i)) = Some ks'"
         "set_at (children other) i (the (at (children n) i)) = Some cs'"
         "grow4_loop n (set_children (set_keys other ks') cs') (i + 1) = Some r"
      by (subst (asm) grow4_loop.simps) (auto split: bind_splits)
    from True "1.prems" have "at (keys n) i \<noteq> None" "at (children n) i \<noteq> None"
      by (subst (asm) grow4_loop.simps, auto split: bind_splits)+
    then obtain kb c where a: "at (keys n) i = Some kb" "at (children n) i = Some c"
      by auto
    from "1.IH" [OF True a(1) _ a(2)] s a show ?thesis by simp
  next
    case False
    with "1.prems" show ?thesis by (subst (asm) grow4_loop.simps) simp
  qed
qed

lemma grow16_loop_nodeType: "grow16_loop n other i = Some r \<Longrightarrow> nodeType r = nodeType other"
proof (induction n other i rule: grow16_loop.induct)
  case (1 n other i)
  show ?case
  proof (cases "0 \<le> i \<and> i < uint (size_n n)")
    case True
    then obtain child where c: "at (children n) i = Some child"
      using "1.prems" by (subst (asm) grow16_loop.simps) (auto split: bind_splits)
    show ?thesis
    proof (cases "child = None")
      case True
      with \<open>0 \<le> i \<and> i < uint (size_n n)\<close> c "1.prems" "1.IH"(2) show ?thesis
        by (subst (asm) grow16_loop.simps) simp
    next
      case False
      with \<open>0 \<le> i \<and> i < uint (size_n n)\<close> c "1.prems" obtain index cs' kb ks' where
        s: "first_free (children other) 0 0 = Some index"
           "set_at (children other) index child = Some cs'"
           "at (keys n) i = Some kb"
           "set_at (keys other) (uint kb) (word_of_int (index + 1)) = Some ks'"
           "grow16_loop n (set_keys (set_children other cs') ks') (i + 1) = Some r"
        by (subst (asm) grow16_loop.simps) (auto split: bind_splits)
      from "1.IH"(1) [OF \<open>0 \<le> i \<and> i < uint (size_n n)\<close> c False s(1) s(2) s(3) s(4) s(5)]
      show ?thesis by simp
    qed
  next
    case False
    with "1.prems" show ?thesis by (subst (asm) grow16_loop.simps) simp
  qed
qed

lemma grow48_loop_nodeType: "grow48_loop n other i = Some r \<Longrightarrow> nodeType r = nodeType other"
proof (induction n other i rule: grow48_loop.induct)
  case (1 n other i)
  show ?case
  proof (cases "0 \<le> i \<and> i < int (length (keys n))")
    case True
    then obtain rf child where c: "FindChild n (word_of_int i) = Some rf" "deref n rf = Some child"
      using "1.prems" by (subst (asm) grow48_loop.simps) (auto split: bind_splits)
    show ?thesis
    proof (cases "child = None")
      case True
      with \<open>0 \<le> i \<and> i < int (length (keys n))\<close> c "1.prems" "1.IH"(2) show ?thesis
        by (subst (asm) grow48_loop.simps) simp
    next
      case False
      with \<open>0 \<le> i \<and> i < int (length (keys n))\<close> c "1.prems" obtain cs' where
        s: "set_at (children other) (uint (word_of_int i :: byte)) child = Some cs'"
           "grow48_loop n (set_children other cs') (i + 1) = Some r"
        by (subst (asm) grow48_loop.simps) (auto split: bind_splits)
      from "1.IH"(1) [OF \<open>0 \<le> i \<and> i < int (length (keys n))\<close> c False s]
      show ?thesis by simp
    qed
  next
    case False
    with "1.prems" show ?thesis by (subst (asm) grow48_loop.simps) simp
  qed
qed

definition rank :: "nodeType \<Rightarrow> nat" where
  "rank t = (case t of NODE4 \<Rightarrow> 0 | NODE16 \<Rightarrow> 1 | NODE48 \<Rightarrow> 2 | NODE256 \<Rightarrow> 3 | LEAF \<Rightarrow> 4)"

lemma grow_rank:
  "grow n = Some n' \<Longrightarrow> nodeType n \<in> {NODE4, NODE16, NODE48} \<Longrightarrow>
   rank (nodeType n') = Suc (rank (nodeType n))"
proof -
  assume g: "grow n = Some n'" and t: "nodeType n \<in> {NODE4, NODE16, NODE48}"
  consider "nodeType n = NODE4" | "nodeType n = NODE16" | "nodeType n = NODE48"
    using t by auto
  then show ?thesis
  proof cases
    case 1
    with g have "grow4_loop n (copyMeta NewNode16 n) 0 = Some n'" by (simp add: grow_def)
    from grow4_loop_nodeType [OF this] 1 show ?thesis by (simp add: rank_def NewNode16_def)
  next
    case 2
    with g have "grow16_loop n (copyMeta NewNode48 n) 0 = Some n'" by (simp add: grow_def)
    from grow16_loop_nodeType [OF this] 2 show ?thesis by (simp add: rank_def NewNode48_def)
  next
    case 3
    with g have "grow48_loop n (copyMeta NewNode256 n) 0 = Some n'" by (simp add: grow_def)
    from grow48_loop_nodeType [OF this] 3 show ?thesis by (simp add: rank_def NewNode256_def)
  qed
qed

subsection \<open>Adding a child\<close>

function AddChild4_index :: "'v ArtNode \<Rightarrow> byte \<Rightarrow> byte \<Rightarrow> byte option" where
  "AddChild4_index n k index =
     (if index < size_n n then do {
        kb \<leftarrow> at (keys n) (uint index);
        if k < kb then Some index else AddChild4_index n k (index + 1) }
      else Some index)"
  by pat_completeness auto
termination
  by (relation "measure (\<lambda>(n, k, i). unat (size_n n) - unat i)")
     (auto simp: unat_byte_inc word_less_nat_alt)

declare AddChild4_index.simps [simp del]

text \<open>\<open>for i := n.size; i > index; i-- { if n.keys[i-1] > key { ... } }\<close>\<close>

function AddChild_shift ::
  "byte list \<Rightarrow> 'a list \<Rightarrow> byte \<Rightarrow> byte \<Rightarrow> byte \<Rightarrow> (byte list \<times> 'a list) option" where
  "AddChild_shift ks cs k index i =
     (if i > index then do {
        kb \<leftarrow> at ks (uint (i - 1));
        if kb > k then do {
          ks' \<leftarrow> set_at ks (uint i) kb;
          c \<leftarrow> at cs (uint (i - 1));
          cs' \<leftarrow> set_at cs (uint i) c;
          AddChild_shift ks' cs' k index (i - 1) }
        else AddChild_shift ks cs k index (i - 1) }
      else Some (ks, cs))"
  by pat_completeness auto
termination
  by (relation "measure (\<lambda>(ks, cs, k, index, i). unat i)")
     (auto intro!: measure_unat)

declare AddChild_shift.simps [simp del]

definition AddChild_place ::
  "'v ArtNode \<Rightarrow> byte \<Rightarrow> 'v ArtNode option \<Rightarrow> byte \<Rightarrow> 'v ArtNode option" where
  "AddChild_place n k node index = do {
     (ks, cs) \<leftarrow> AddChild_shift (keys n) (children n) k index (size_n n);
     ks' \<leftarrow> set_at ks (uint index) k;
     cs' \<leftarrow> set_at cs (uint index) node;
     Some (set_size (set_children (set_keys n ks') cs') (size_n n + 1)) }"

function AddChild :: "'v ArtNode \<Rightarrow> byte \<Rightarrow> 'v ArtNode option \<Rightarrow> 'v ArtNode option" where
  "AddChild n k node =
     (case nodeType n of
        NODE4 \<Rightarrow>
          if \<not> IsFull n then do {
            index \<leftarrow> AddChild4_index n k 0;
            AddChild_place n k node index }
          else do { n' \<leftarrow> grow n; AddChild n' k node }
      | NODE16 \<Rightarrow>
          if \<not> IsFull n then do {
            index \<leftarrow> sort_Search (uint (size_n n))
                       (\<lambda>i. do { kb \<leftarrow> at (keys n) (uint (word_of_int i :: byte)); Some (kb \<ge> k) });
            AddChild_place n k node (word_of_int index) }
          else do { n' \<leftarrow> grow n; AddChild n' k node }
      | NODE48 \<Rightarrow>
          if \<not> IsFull n then do {
            index \<leftarrow> first_free (children n) 0 0;
            cs' \<leftarrow> set_at (children n) index node;
            ks' \<leftarrow> set_at (keys n) (uint k) (word_of_int (index + 1));
            Some (set_size (set_keys (set_children n cs') ks') (size_n n + 1)) }
          else do { n' \<leftarrow> grow n; AddChild n' k node }
      | NODE256 \<Rightarrow>
          if \<not> IsFull n then do {
            cs' \<leftarrow> set_at (children n) (uint k) node;
            Some (set_size (set_children n cs') (size_n n + 1)) }
          else Some n
      | LEAF \<Rightarrow> Some n)"
  by pat_completeness auto
termination
proof (relation "measure (\<lambda>(n, k, node). 4 - rank (nodeType n))")
  show "wf (measure (\<lambda>(n, k, node). 4 - rank (nodeType n)))" by simp
next
  fix n :: "'v ArtNode" and k :: byte and node :: "'v ArtNode option" and n' :: "'v ArtNode"
  assume "nodeType n = NODE4" "grow n = Some n'"
  then show "((n', k, node), (n, k, node)) \<in> measure (\<lambda>(n, k, node). 4 - rank (nodeType n))"
    using grow_rank [of n n'] by (simp add: rank_def)
next
  fix n :: "'v ArtNode" and k :: byte and node :: "'v ArtNode option" and n' :: "'v ArtNode"
  assume "nodeType n = NODE16" "grow n = Some n'"
  then show "((n', k, node), (n, k, node)) \<in> measure (\<lambda>(n, k, node). 4 - rank (nodeType n))"
    using grow_rank [of n n'] by (simp add: rank_def)
next
  fix n :: "'v ArtNode" and k :: byte and node :: "'v ArtNode option" and n' :: "'v ArtNode"
  assume "nodeType n = NODE48" "grow n = Some n'"
  then show "((n', k, node), (n, k, node)) \<in> measure (\<lambda>(n, k, node). 4 - rank (nodeType n))"
    using grow_rank [of n n'] by (simp add: rank_def)
qed

declare AddChild.simps [simp del]

subsection \<open>Shrinking a node and removing a child\<close>

text \<open>\<open>NODE16\<close> to \<open>NODE4\<close>: \<open>for i := 0; i < len(other.keys); i++\<close>\<close>

function shrink16_loop :: "'v ArtNode \<Rightarrow> 'v ArtNode \<Rightarrow> int \<Rightarrow> 'v ArtNode option" where
  "shrink16_loop n other i =
     (if 0 \<le> i \<and> i < int (length (keys other)) then do {
        kb \<leftarrow> at (keys n) i;
        ks' \<leftarrow> set_at (keys other) i kb;
        c \<leftarrow> at (children n) i;
        cs' \<leftarrow> set_at (children other) i c;
        shrink16_loop n (set_size (set_children (set_keys other ks') cs') (size_n other + 1)) (i + 1) }
      else Some other)"
  by pat_completeness auto
termination
  by (relation "measure (\<lambda>(n, other, i). nat (int (length (keys other)) - i))")
     (auto simp: set_at_def set_size_def set_children_def set_keys_def split: if_splits)

declare shrink16_loop.simps [simp del]

text \<open>\<open>NODE48\<close> to \<open>NODE16\<close>: \<open>for i := 0; i < len(n.keys); i++\<close>\<close>

function shrink48_loop :: "'v ArtNode \<Rightarrow> 'v ArtNode \<Rightarrow> int \<Rightarrow> 'v ArtNode option" where
  "shrink48_loop n other i =
     (if 0 \<le> i \<and> i < int (length (keys n)) then do {
        idx \<leftarrow> at (keys n) (uint (word_of_int i :: byte));
        if idx > 0 then do {
          child \<leftarrow> at (children n) (uint (idx - 1));
          if child \<noteq> None then do {
            cs' \<leftarrow> set_at (children other) (uint (size_n other)) child;
            ks' \<leftarrow> set_at (keys other) (uint (size_n other)) (word_of_int i);
            shrink48_loop n (set_size (set_keys (set_children other cs') ks') (size_n other + 1)) (i + 1) }
          else shrink48_loop n other (i + 1) }
        else shrink48_loop n other (i + 1) }
      else Some other)"
  by pat_completeness auto
termination
  by (relation "measure (\<lambda>(n, other, i). nat (int (length (keys n)) - i))") auto

declare shrink48_loop.simps [simp del]

text \<open>\<open>NODE256\<close> to \<open>NODE48\<close>: \<open>for i := 0; i < len(n.children); i++\<close>\<close>

function shrink256_loop :: "'v ArtNode \<Rightarrow> 'v ArtNode \<Rightarrow> int \<Rightarrow> 'v ArtNode option" where
  "shrink256_loop n other i =
     (if 0 \<le> i \<and> i < int (length (children n)) then do {
        child \<leftarrow> at (children n) (uint (word_of_int i :: byte));
        if child \<noteq> None then do {
          cs' \<leftarrow> set_at (children other) (uint (size_n other)) child;
          ks' \<leftarrow> set_at (keys other) (uint (word_of_int i :: byte)) (size_n other + 1);
          shrink256_loop n (set_size (set_keys (set_children other cs') ks') (size_n other + 1)) (i + 1) }
        else shrink256_loop n other (i + 1) }
      else Some other)"
  by pat_completeness auto
termination
  by (relation "measure (\<lambda>(n, other, i). nat (int (length (children n)) - i))") auto

declare shrink256_loop.simps [simp del]

text \<open>
  The \<open>NODE4\<close> case of \<open>shrink\<close> when the remaining child \<open>other\<close> is an inner node: the
  prefix of \<open>n\<close>, the key byte of the child and the prefix of the child are joined in
  \<open>n.prefix\<close> (at most \<open>MAX_PREFIX_LEN\<close> bytes) and copied to the child.
\<close>

definition shrink4_inner :: "'v ArtNode \<Rightarrow> 'v ArtNode \<Rightarrow> 'v ArtNode option" where
  "shrink4_inner n other = do {
     (p1, l1) \<leftarrow> (if prefixLen n < MAX_PREFIX_LEN then do {
                     k0 \<leftarrow> at (keys n) 0;
                     p \<leftarrow> set_at (prefix n) (prefixLen n) k0;
                     Some (p, prefixLen n + 1) }
                   else Some (prefix n, prefixLen n));
     (p2, l2) \<leftarrow> (if l1 < MAX_PREFIX_LEN then do {
                     tl \<leftarrow> slice_from p1 l1;
                     Some (take (nat l1) p1
                             @ memcpy tl (prefix other) (min_int (prefixLen other) (MAX_PREFIX_LEN - l1)),
                           l1 + min_int (prefixLen other) (MAX_PREFIX_LEN - l1)) }
                   else Some (p1, l1));
     Some (set_prefixLen (set_prefix other (memcpy (prefix other) p2 (min_int l2 MAX_PREFIX_LEN)))
             (prefixLen other + (prefixLen n + 1))) }"

definition shrink :: "'v ArtNode \<Rightarrow> 'v ArtNode option" where
  "shrink n =
     (case nodeType n of
        NODE4 \<Rightarrow> do {
          c \<leftarrow> at (children n) 0;
          case c of
            None \<Rightarrow> None
          | Some other \<Rightarrow>
              if \<not> IsLeaf other then shrink4_inner n other
              else Some (copyMeta other n) }
      | NODE16 \<Rightarrow> shrink16_loop n (set_size (copyMeta NewNode4 n) 0) 0
      | NODE48 \<Rightarrow> shrink48_loop n (set_size (copyMeta NewNode16 n) 0) 0
      | NODE256 \<Rightarrow> shrink256_loop n (set_size (copyMeta NewNode48 n) 0) 0
      | LEAF \<Rightarrow> Some n)"

text \<open>\<open>for i := uint8(idx); i < n.size-1; i++\<close>, with the subtraction in \<open>uint8\<close>.\<close>

function RemoveChild_shift ::
  "byte list \<Rightarrow> 'a list \<Rightarrow> byte \<Rightarrow> byte \<Rightarrow> (byte list \<times> 'a list) option" where
  "RemoveChild_shift ks cs sz i =
     (if i < sz - 1 then do {
        kb \<leftarrow> at ks (uint (i + 1));
        ks' \<leftarrow> set_at ks (uint i) kb;
        c \<leftarrow> at cs (uint (i + 1));
        cs' \<leftarrow> set_at cs (uint i) c;
        RemoveChild_shift ks' cs' sz (i + 1) }
      else Some (ks, cs))"
  by pat_completeness auto
termination
  by (relation "measure (\<lambda>(ks, cs, sz, i). unat (sz - 1) - unat i)")
     (auto simp: unat_byte_inc word_less_nat_alt)

declare RemoveChild_shift.simps [simp del]

definition RemoveChild :: "'v ArtNode \<Rightarrow> byte \<Rightarrow> 'v ArtNode option" where
  "RemoveChild n k = do {
     n1 \<leftarrow> (case nodeType n of
              NODE48 \<Rightarrow> do {
                idx \<leftarrow> Index n k;
                if idx \<ge> 0 then do {
                  child \<leftarrow> at (children n) idx;
                  if child \<noteq> None then do {
                    cs' \<leftarrow> set_at (children n) idx None;
                    ks' \<leftarrow> set_at (keys n) (uint k) 0;
                    Some (set_size (set_keys (set_children n cs') ks') (size_n n - 1)) }
                  else Some n }
                else Some n }
            | NODE256 \<Rightarrow> do {
                idx \<leftarrow> Index n k;
                child \<leftarrow> at (children n) idx;
                if child \<noteq> None then do {
                  cs' \<leftarrow> set_at (children n) idx None;
                  Some (set_size (set_children n cs') (size_n n - 1)) }
                else Some n }
            | LEAF \<Rightarrow> Some n
            | _ \<Rightarrow> do {
                idx \<leftarrow> Index n k;
                ks1 \<leftarrow> set_at (keys n) idx 0;
                cs1 \<leftarrow> set_at (children n) idx None;
                (ks2, cs2) \<leftarrow> (if idx \<ge> 0 then RemoveChild_shift ks1 cs1 (size_n n) (word_of_int idx)
                                else Some (ks1, cs1));
                ks3 \<leftarrow> set_at ks2 (uint (size_n n - 1)) 0;
                cs3 \<leftarrow> set_at cs2 (uint (size_n n - 1)) None;
                Some (set_size (set_children (set_keys n ks3) cs3) (size_n n - 1)) });
     if uint (size_n n1) < MinSize n1 then shrink n1 else Some n1 }"

section \<open>The tree\<close>

record 'v ArtTree =
  root :: "'v ArtNode option"
  size_t :: int

definition NewArtTree :: "'v ArtTree" where
  "NewArtTree = \<lparr>root = None, size_t = 0\<rparr>"

text \<open>\<open>bytes.Index(key, []byte{0})\<close> of the Go standard library, for a separator of one
  byte: the index of its first occurrence, or \<open>-1\<close>.\<close>

fun bytes_Index :: "byte list \<Rightarrow> byte \<Rightarrow> int" where
  "bytes_Index [] b = - 1"
| "bytes_Index (x # xs) b =
     (if x = b then 0 else (let r = bytes_Index xs b in if r < 0 then - 1 else r + 1))"

definition ensureNullTerminatedKey :: "byte list \<Rightarrow> byte list" where
  "ensureNullTerminatedKey k = (if bytes_Index k 0 < 0 then k @ [0] else k)"

lemma deref_size: "deref n r = Some (Some c) \<Longrightarrow> size c < size n"
  by (cases r) (auto simp: deref_def dest: size_child)

subsection \<open>Search\<close>

function searchHelper :: "'v ArtNode option \<Rightarrow> byte list \<Rightarrow> int \<Rightarrow> 'v ArtNode option option" where
  "searchHelper None k depth = Some None"
| "searchHelper (Some current) k depth =
     (if depth > int (length k) - 1 then Some (Some current)
      else if IsLeaf current \<and> length (key current) \<ge> length k
              \<and> k = take (length k) (key current) then Some (Some current)
      else do {
        prefixMismatch \<leftarrow> PrefixMismatch current k depth;
        if prefixMismatch = prefixLen current then
          if depth + prefixLen current > int (length k) - 1 then Some (Some current)
          else do {
            kb \<leftarrow> at k (depth + prefixLen current);
            next \<leftarrow> FindChild current kb;
            c \<leftarrow> deref current next;
            searchHelper c k (depth + prefixLen current + 1) }
        else if prefixMismatch = int (length k) - depth then Some (Some current)
        else Some None })"
  by pat_completeness auto
termination
  by (relation "measure (\<lambda>(x, k, depth). case x of None \<Rightarrow> 0 | Some n \<Rightarrow> Suc (size n))")
     (auto split: option.splits dest: deref_size)

declare searchHelper.simps(2) [simp del]

definition Search :: "'v ArtTree \<Rightarrow> byte list \<Rightarrow> 'v iface option" where
  "Search t k = do {
     foundNode \<leftarrow> searchHelper (root t) (ensureNullTerminatedKey k) 0;
     case foundNode of
       None \<Rightarrow> Some Nil
     | Some n \<Rightarrow> if IsMatch n (ensureNullTerminatedKey k) then Some (value_n n) else Some Nil }"

subsection \<open>Insert\<close>

text \<open>
  The helpers take the node in the slot \<open>*currentRef\<close> and the size of the tree, and
  return the new content of the slot and the new size. The split of a compressed path
  (the case \<open>mismatch != current.prefixLen\<close>) is \<open>insert_split\<close>.
\<close>

definition insert_split ::
  "'v ArtNode \<Rightarrow> byte list \<Rightarrow> 'v iface \<Rightarrow> int \<Rightarrow> int \<Rightarrow> 'v ArtNode option" where
  "insert_split current k v depth mismatch = do {
     let newNode4 = set_prefixLen NewNode4 mismatch;
     let newNode4 = set_prefix newNode4 (memcpy (prefix newNode4) (prefix current) mismatch);
     newNode4 \<leftarrow>
       (if prefixLen current < MAX_PREFIX_LEN then do {
          kb \<leftarrow> at (prefix current) mismatch;
          let l = prefixLen current - (mismatch + 1);
          src \<leftarrow> slice_from (prefix current) (mismatch + 1);
          p \<leftarrow> memmove (prefix current) src (min_int l MAX_PREFIX_LEN);
          AddChild newNode4 kb (Some (set_prefix (set_prefixLen current l) p)) }
        else do {
          let l = prefixLen current - (mismatch + 1);
          m \<leftarrow> Minimum (Some current);
          minKey \<leftarrow> map_option key m;
          kb \<leftarrow> at minKey (depth + mismatch);
          src \<leftarrow> slice_from minKey (depth + mismatch + 1);
          p \<leftarrow> memmove (prefix current) src (min_int l MAX_PREFIX_LEN);
          AddChild newNode4 kb (Some (set_prefix (set_prefixLen current l) p)) });
     kb \<leftarrow> at k (depth + mismatch);
     AddChild newNode4 kb (Some (NewLeafNode k v)) }"

definition insert_leaf ::
  "'v ArtNode \<Rightarrow> byte list \<Rightarrow> 'v iface \<Rightarrow> int \<Rightarrow> 'v ArtNode option" where
  "insert_leaf current k v depth = do {
     let newNode4 = NewNode4;
     let newLeafNode = NewLeafNode k v;
     limit \<leftarrow> LongestCommonPrefix current newLeafNode depth;
     let newNode4 = set_prefixLen newNode4 limit;
     src \<leftarrow> slice_from k depth;
     let newNode4 = set_prefix newNode4
                      (memcpy (prefix newNode4) src (min_int (prefixLen newNode4) MAX_PREFIX_LEN));
     kb \<leftarrow> at (key current) (depth + prefixLen newNode4);
     newNode4 \<leftarrow> AddChild newNode4 kb (Some current);
     kb \<leftarrow> at k (depth + prefixLen newNode4);
     AddChild newNode4 kb (Some newLeafNode) }"

text \<open>A write through the pointer \<open>next\<close> returned by \<open>FindChild\<close>.\<close>

definition assign :: "'v ArtNode \<Rightarrow> ref \<Rightarrow> 'v ArtNode option \<Rightarrow> 'v ArtNode option" where
  "assign n r c =
     (case r of
        NullNode \<Rightarrow> Some n
      | ChildRef i \<Rightarrow> map_option (set_children n) (set_at (children n) i c))"

function insertHelper ::
  "'v ArtNode option \<Rightarrow> byte list \<Rightarrow> 'v iface \<Rightarrow> int \<Rightarrow> int \<Rightarrow> ('v ArtNode option \<times> int) option" where
  "insertHelper None k v depth sz = Some (Some (NewLeafNode k v), sz + 1)"
| "insertHelper (Some current) k v depth sz =
     (if IsLeaf current then
        if IsMatch current k then Some (Some current, sz)
        else do { n \<leftarrow> insert_leaf current k v depth; Some (Some n, sz + 1) }
      else do {
        mismatch \<leftarrow> (if prefixLen current \<noteq> 0 then PrefixMismatch current k depth
                      else Some (prefixLen current));
        if prefixLen current \<noteq> 0 \<and> mismatch \<noteq> prefixLen current
        then do { n \<leftarrow> insert_split current k v depth mismatch; Some (Some n, sz + 1) }
        else do {
          kb \<leftarrow> at k (depth + prefixLen current);
          next \<leftarrow> FindChild current kb;
          c \<leftarrow> deref current next;
          if c \<noteq> None then do {
            (c', sz') \<leftarrow> insertHelper c k v (depth + prefixLen current + 1) sz;
            n \<leftarrow> assign current next c';
            Some (Some n, sz') }
          else do {
            n \<leftarrow> AddChild current kb (Some (NewLeafNode k v));
            Some (Some n, sz + 1) } } })"
  by pat_completeness auto
termination
  by (relation "measure (\<lambda>(x, k, v, depth, sz). case x of None \<Rightarrow> 0 | Some n \<Rightarrow> Suc (size n))")
     (auto split: option.splits dest: deref_size)

declare insertHelper.simps(2) [simp del]

definition Insert :: "'v ArtTree \<Rightarrow> byte list \<Rightarrow> 'v iface \<Rightarrow> 'v ArtTree option" where
  "Insert t k v = do {
     (r, sz) \<leftarrow> insertHelper (root t) (ensureNullTerminatedKey k) v 0 (size_t t);
     Some \<lparr>root = r, size_t = sz\<rparr> }"

subsection \<open>Remove\<close>

function removeHelper ::
  "'v ArtNode option \<Rightarrow> byte list \<Rightarrow> int \<Rightarrow> int \<Rightarrow> ('v ArtNode option \<times> int) option" where
  "removeHelper None k depth sz = Some (None, sz)"
| "removeHelper (Some current) k depth sz =
     (if IsLeaf current \<and> IsMatch current k then Some (None, sz - 1)
      else do {
        mismatch \<leftarrow> (if prefixLen current \<noteq> 0 then PrefixMismatch current k depth
                      else Some (prefixLen current));
        if prefixLen current \<noteq> 0 \<and> mismatch \<noteq> prefixLen current
        then Some (Some current, sz)
        else do {
          kb \<leftarrow> at k (depth + prefixLen current);
          next \<leftarrow> FindChild current kb;
          c \<leftarrow> deref current next;
          if (case c of None \<Rightarrow> False | Some ch \<Rightarrow> IsLeaf ch \<and> IsMatch ch k) then do {
            n \<leftarrow> RemoveChild current kb;
            Some (Some n, sz - 1) }
          else do {
            (c', sz') \<leftarrow> removeHelper c k (depth + prefixLen current + 1) sz;
            n \<leftarrow> assign current next c';
            Some (Some n, sz') } } })"
  by pat_completeness auto
termination
  by (relation "measure (\<lambda>(x, k, depth, sz). case x of None \<Rightarrow> 0 | Some n \<Rightarrow> Suc (size n))")
     (auto split: option.splits dest: deref_size)

declare removeHelper.simps(2) [simp del]

definition Remove :: "'v ArtTree \<Rightarrow> byte list \<Rightarrow> 'v ArtTree option" where
  "Remove t k = do {
     (r, sz) \<leftarrow> removeHelper (root t) (ensureNullTerminatedKey k) 0 (size_t t);
     Some \<lparr>root = r, size_t = sz\<rparr> }"

subsection \<open>Enumeration and prefix search\<close>

text \<open>
  \<open>eachHelper\<close> sends the nodes to a channel; the model returns the sequence of nodes
  sent. \<open>each48_loop\<close> is the loop over the key bytes of a \<open>NODE48\<close>, \<open>each_loop\<close> the
  loop over the child slots of every other node.
\<close>

function eachHelper :: "'v ArtNode option \<Rightarrow> 'v ArtNode list option"
  and each48_loop :: "'v ArtNode \<Rightarrow> int \<Rightarrow> 'v ArtNode list option"
  and each_loop :: "'v ArtNode \<Rightarrow> int \<Rightarrow> 'v ArtNode list option" where
  "eachHelper None = Some []"
| "eachHelper (Some current) = do {
     rest \<leftarrow> (if nodeType current = NODE48 then each48_loop current 0 else each_loop current 0);
     Some (current # rest) }"
| "each48_loop current i =
     (if 0 \<le> i \<and> i < int (length (keys current)) then do {
        index \<leftarrow> at (keys current) (uint (word_of_int i :: byte));
        if index > 0 then do {
          next \<leftarrow> at (children current) (uint (index - 1));
          if next \<noteq> None then do {
            a \<leftarrow> eachHelper next;
            b \<leftarrow> each48_loop current (i + 1);
            Some (a @ b) }
          else each48_loop current (i + 1) }
        else each48_loop current (i + 1) }
      else Some [])"
| "each_loop current i =
     (if 0 \<le> i \<and> i < int (length (children current)) then do {
        next \<leftarrow> at (children current) i;
        if next \<noteq> None then do {
          a \<leftarrow> eachHelper next;
          b \<leftarrow> each_loop current (i + 1);
          Some (a @ b) }
        else each_loop current (i + 1) }
      else Some [])"
  by pat_completeness auto
termination
  by (relation "inv_image (less_than <*lex*> less_than)
        (\<lambda>x. case x of
           Inl None \<Rightarrow> (0, 0)
         | Inl (Some n) \<Rightarrow> (Suc (size n), Suc (length (keys n) + length (children n)))
         | Inr (Inl (n, i)) \<Rightarrow> (Suc (size n), nat (int (length (keys n)) - i))
         | Inr (Inr (n, i)) \<Rightarrow> (Suc (size n), nat (int (length (children n)) - i)))")
     (auto split: option.splits dest: size_child)

declare eachHelper.simps(2) [simp del]
declare each48_loop.simps [simp del]
declare each_loop.simps [simp del]

definition Each :: "'v ArtTree \<Rightarrow> 'v ArtNode list option" where
  "Each t = eachHelper (root t)"

text \<open>
  \<open>PrefixSearch\<close> collects the values of the leaves that \<open>EachChanResultFrom\<close> sends for
  the node found by \<open>searchHelper\<close>; for a nil start node nothing is sent.
\<close>

definition PrefixSearch :: "'v ArtTree \<Rightarrow> byte list \<Rightarrow> 'v iface list option" where
  "PrefixSearch t k = do {
     start \<leftarrow> searchHelper (root t) k 0;
     nodes \<leftarrow> (if start \<noteq> None then eachHelper start else Some []);
     Some (map value_n (filter IsLeaf nodes)) }"

subsection \<open>Sequences of public operations\<close>

datatype 'v op =
    OpInsert "byte list" "'v iface"
  | OpRemove "byte list"
  | OpSearch "byte list"
  | OpPrefixSearch "byte list"
  | OpEach

text \<open>The tree after one public operation. \<open>Search\<close>, \<open>PrefixSearch\<close> and \<open>Each\<close> assign to
  no field of the tree or of a node, so the tree after them is the tree before them.\<close>

fun apply_op :: "'v ArtTree \<Rightarrow> 'v op \<Rightarrow> 'v ArtTree option" where
  "apply_op t (OpInsert k v) = Insert t k v"
| "apply_op t (OpRemove k) = Remove t k"
| "apply_op t (OpSearch k) = do { r \<leftarrow> Search t k; Some t }"
| "apply_op t (OpPrefixSearch k) = do { r \<leftarrow> PrefixSearch t k; Some t }"
| "apply_op t OpEach = do { r \<leftarrow> Each t; Some t }"

fun run :: "'v ArtTree \<Rightarrow> 'v op list \<Rightarrow> 'v ArtTree option" where
  "run t [] = Some t"
| "run t (x # xs) = do { t' \<leftarrow> apply_op t x; run t' xs }"



section \<open>Shape transitions\<close>






section \<open>A leaf that keeps the prefix of a collapsed node\<close>

text \<open>
  When a \<open>NODE4\<close> is left with one child and that child is a leaf, \<open>shrink\<close> calls
  \<open>other.copyMeta(n)\<close>: the leaf takes \<open>prefix\<close> and \<open>prefixLen\<close> of the node it
  replaces. \<open>searchHelper\<close> and \<open>removeHelper\<close> compare that prefix at the depth of the
  leaf, which changes when a later insert puts the leaf below a new \<open>NODE4\<close>.

  The keys below are \<open>aaaaaaaaaaaab\<close> and \<open>aaaaaaaaaaaac\<close> (twelve \<open>a\<close>).
\<close>

definition a12 :: "byte list" where
  "a12 = replicate 12 97"

definition collapse_ops :: "nat op list" where
  "collapse_ops =
     [OpInsert (a12 @ [98]) (Iface 1), OpInsert (a12 @ [99]) (Iface 2),
      OpRemove (a12 @ [99]), OpInsert (a12 @ [99]) (Iface 3)]"

text \<open>
  Claim C2 (every public operation is total and never panics) fails on the code: after
  the four operations of \<open>collapse_ops\<close>, none of whose keys holds a 0x00 byte, \<open>Search\<close>,
  \<open>Remove\<close> and \<open>PrefixSearch\<close> of the key \<open>aaaaaaaaaaaabaaaaaaaaaaa\<close> index a slice out of
  range in \<open>PrefixMismatch\<close>.
\<close>

theorem search_panics_after_collapse:
  "(run NewArtTree collapse_ops \<bind> (\<lambda>t. Search t (a12 @ [98] @ replicate 11 97))) = None
   \<and> (run NewArtTree collapse_ops \<bind> (\<lambda>t. Remove t (a12 @ [98] @ replicate 11 97))) = None
   \<and> (run NewArtTree collapse_ops \<bind> (\<lambda>t. PrefixSearch t (a12 @ [98] @ replicate 11 97))) = None
   \<and> run NewArtTree collapse_ops \<noteq> None"
  by code_simp

text \<open>
  Claim C3 (\<open>PrefixSearch\<close> returns exactly the values of the keys that start with the
  prefix) fails on the code: after inserting \<open>abc\<close> and \<open>abd\<close>, removing \<open>abc\<close> and
  inserting \<open>abe\<close>, the prefix \<open>abdab\<close> returns the value of \<open>abd\<close>, although no stored key
  starts with \<open>abdab\<close>.
\<close>

theorem prefix_search_returns_non_match:
  "(run NewArtTree
      [OpInsert [97, 98, 99] (Iface (1::nat)), OpInsert [97, 98, 100] (Iface 2),
       OpRemove [97, 98, 99], OpInsert [97, 98, 101] (Iface 3)]
    \<bind> (\<lambda>t. PrefixSearch t [97, 98, 100, 97, 98])) = Some [Iface 2]"
  by code_simp

section \<open>Key normalization\<close>







section \<open>Duplicate insert\<close>

lemma set_children_same [simp]: "set_children n (children n) = n"
  by (cases n) (simp add: set_children_def)

lemma assign_same: "deref current next = Some c \<Longrightarrow> assign current next c = Some current"
  by (cases "next") (auto simp: assign_def deref_def at_def set_at_def split: if_splits)

lemma IsMatch_IsLeaf: "IsMatch n k \<Longrightarrow> IsLeaf n"
  by (auto simp: IsMatch_def IsLeaf_def split: if_splits)

lemma FindChild_leaf: "IsLeaf n \<Longrightarrow> FindChild n kb = Some NullNode"
  by (simp add: FindChild_def IsLeaf_def)

text \<open>Where \<open>searchHelper\<close> ends in a leaf that matches the key, \<open>insertHelper\<close> walks the
  same path and returns at \<open>if current.IsMatch(key) { return }\<close>.\<close>

lemma dup_insert:
  "searchHelper x k depth = Some (Some n) \<Longrightarrow> IsMatch n k \<Longrightarrow>
   insertHelper x k v depth sz = Some (x, sz)"
proof (induction x k depth rule: searchHelper.induct)
  case (1 k depth)
  then show ?case by simp
next
  case (2 current k depth)
  show ?case
  proof (cases "IsLeaf current \<and> IsMatch current k")
    case True
    then show ?thesis by (simp add: insertHelper.simps(2))
  next
    case nm: False
    have ncur: "n \<noteq> current"
      using nm "2.prems"(2) by (auto dest: IsMatch_IsLeaf)
    from "2.prems"(1) ncur obtain pm kb "next" c where
      c1: "\<not> depth > int (length k) - 1"
      and c2: "\<not> (IsLeaf current \<and> length (key current) \<ge> length k
                \<and> k = take (length k) (key current))"
      and pm: "PrefixMismatch current k depth = Some pm" "pm = prefixLen current"
      and c3: "\<not> depth + prefixLen current > int (length k) - 1"
      and kb: "at k (depth + prefixLen current) = Some kb"
      and nx: "FindChild current kb = Some next"
      and c: "deref current next = Some c"
      and rec: "searchHelper c k (depth + prefixLen current + 1) = Some (Some n)"
      by (auto simp: searchHelper.simps(2) split: if_splits bind_splits)
    have cn: "c \<noteq> None" using rec by (cases c) auto
    have nl: "\<not> IsLeaf current"
      using nx c cn by (auto simp: FindChild_leaf deref_def)
    have ih: "insertHelper c k v (depth + prefixLen current + 1) sz = Some (c, sz)"
      using "2.IH" [OF c1 c2 pm c3 kb nx c rec "2.prems"(2)] .
    show ?thesis
    proof (cases "prefixLen current = 0")
      case True
      with nl kb nx c cn ih show ?thesis
        by (simp add: insertHelper.simps(2) assign_same)
    next
      case False
      with nl pm kb nx c cn ih show ?thesis
        by (simp add: insertHelper.simps(2) assign_same)
    qed
  qed
qed

text \<open>The tree contains a key: the condition under which \<open>Search\<close> returns the value of
  the node it found, \<open>foundNode != nil && foundNode.IsMatch(key)\<close>.\<close>

definition contains :: "'v ArtTree \<Rightarrow> byte list \<Rightarrow> bool" where
  "contains t k =
     (case searchHelper (root t) (ensureNullTerminatedKey k) 0 of
        Some (Some n) \<Rightarrow> IsMatch n (ensureNullTerminatedKey k)
      | _ \<Rightarrow> False)"

definition tree_a :: "nat ArtTree" where
  "tree_a = \<lparr>root = Some (NewLeafNode [97, 0] (Iface 1)), size_t = 1\<rparr>"

text \<open>
  Claim C5. If the tree contains the key \<open>k\<close> with value \<open>v\<close>, then \<open>Insert\<close> of \<open>k\<close> with
  any value \<open>v'\<close> returns without a panic and leaves the tree as it was: the value found
  for \<open>k\<close> is still \<open>v\<close> and the size is unchanged.
\<close>

theorem duplicate_insert_noop:
  assumes "contains t k" and "Search t k = Some v"
  shows "\<exists>t'. Insert t k v' = Some t' \<and> Search t' k = Some v \<and> size_t t' = size_t t \<and> t' = t"
proof -
  from assms(1) have "Insert t k v' = Some t"
    by (auto simp: contains_def Insert_def dup_insert split: option.splits)
  with assms(2) show ?thesis by simp
qed

theorem duplicate_insert_noop_witness:
  "contains tree_a [97] \<and> Search tree_a [97] = Some (Iface 1)
   \<and> (\<exists>t'. Insert tree_a [97] (Iface 2) = Some t' \<and> Search t' [97] = Some (Iface 1)
        \<and> size_t t' = size_t tree_a \<and> t' = tree_a)"
proof -
  have h1: "contains tree_a [97]" by code_simp
  have h2: "Search tree_a [97] = Some (Iface 1)" by code_simp
  from duplicate_insert_noop [OF h1 h2, of "Iface 2"] h1 h2 show ?thesis by simp
qed

section \<open>Operations that only read\<close>



end
